theory Spec2Isabelle
  imports Main "HOL-Library.Word"
begin

unbundle bit_operations_syntax

section \<open>The hashcache decorator (src/hashcache/hashcache.py)\<close>

text \<open>
  The module holds one decorator factory, \<^verbatim>\<open>hashcache(directory)\<close>, whose inner function
  \<^verbatim>\<open>wrapper\<close> does all the work: it pickles the call signature, hashes it with MD5, derives
  the path of a record file, reads the record when it may, and otherwise calls the wrapped
  function and writes its result. The embedding follows \<^verbatim>\<open>wrapper\<close> line by line.

  What \<^verbatim>\<open>wrapper\<close> takes from the Python library (\<^verbatim>\<open>pickle\<close>, \<^verbatim>\<open>dill\<close>, \<^verbatim>\<open>hashlib\<close>) and the wrapped
  function itself are parameters of the model, collected in the record \<open>env\<close>. The file
  system is a map from paths to contents; every access to it, every call of the wrapped
  function and every log line is appended to a trace, so that "is read", "is written" and
  "is invoked" are statements about that trace. The lock is not modelled: the model is
  one thread, in which \<^verbatim>\<open>with lock\<close> changes nothing. The cache directory exists and is
  writable (\<^verbatim>\<open>hashcache\<close> creates it before any call is wrapped).
\<close>

subsection \<open>Python values and exceptions\<close>

type_synonym bytes = string

text \<open>
  The values that flow through the wrapper. A dict keeps its insertion order, as Python's
  does, so it is a list of items. \<open>PException\<close> is an instance of an exception class of the
  program, with the name of its class and its \<^verbatim>\<open>args\<close>. \<open>PObj\<close> stands for any other object (a
  function, a closure), identified by a number.

  Python passes objects, and pickle tells an object that occurs twice from two equal
  objects: it writes the second occurrence of an object as a reference to the first.
  \<open>PIdent n v\<close> is the object with identity \<open>n\<close> and value \<open>v\<close>; a value without this tag is
  an object that occurs once. Equality of \<open>pyval\<close> is therefore equality of values together
  with their sharing, and \<open>value_of\<close> forgets the sharing.
\<close>

datatype pyval =
    PNone
  | PBool bool
  | PInt int
  | PStr string
  | PTuple "pyval list"
  | PList "pyval list"
  | PDict "(pyval \<times> pyval) list"
  | PException string "pyval list"
  | PObj nat
  | PIdent nat pyval

text \<open>Truth value testing, as \<^verbatim>\<open>and\<close> and \<^verbatim>\<open>not\<close> do it on line 62.\<close>

fun truthy :: "pyval \<Rightarrow> bool" where
  "truthy PNone = False"
| "truthy (PBool b) = b"
| "truthy (PInt i) = (i \<noteq> 0)"
| "truthy (PStr s) = (s \<noteq> [])"
| "truthy (PTuple xs) = (xs \<noteq> [])"
| "truthy (PList xs) = (xs \<noteq> [])"
| "truthy (PDict kvs) = (kvs \<noteq> [])"
| "truthy (PException name xs) = True"
| "truthy (PObj n) = True"
| "truthy (PIdent n v) = truthy v"

function value_of :: "pyval \<Rightarrow> pyval"
  and value_of_list :: "pyval list \<Rightarrow> pyval list"
  and value_of_items :: "(pyval \<times> pyval) list \<Rightarrow> (pyval \<times> pyval) list" where
  "value_of (PIdent n v) = value_of v"
| "value_of (PTuple xs) = PTuple (value_of_list xs)"
| "value_of (PList xs) = PList (value_of_list xs)"
| "value_of (PDict kvs) = PDict (value_of_items kvs)"
| "value_of (PException name xs) = PException name (value_of_list xs)"
| "value_of PNone = PNone"
| "value_of (PBool b) = PBool b"
| "value_of (PInt i) = PInt i"
| "value_of (PStr s) = PStr s"
| "value_of (PObj n) = PObj n"
| "value_of_list [] = []"
| "value_of_list (x # xs) = value_of x # value_of_list xs"
| "value_of_items [] = []"
| "value_of_items ((k, v) # kvs) = (value_of k, value_of v) # value_of_items kvs"
  by pat_completeness auto
termination
  by (relation "measure (\<lambda>x. case x of
          Inl v \<Rightarrow> size v
        | Inr (Inl xs) \<Rightarrow> size_list size xs
        | Inr (Inr kvs) \<Rightarrow> size_list (size_prod size size) kvs)") auto

datatype exn =
    ImportError string
  | EOFError
  | PickleError
  | PicklingError
  | UnpicklingError
  | AttributeError
  | TypeError
  | ValueError
  | Exception string

text \<open>
  The clause \<^verbatim>\<open>except (EOFError, pickle.PickleError)\<close> of line 68: it matches \<^verbatim>\<open>EOFError\<close>,
  \<^verbatim>\<open>PickleError\<close> and the two subclasses of the latter, and nothing else.
\<close>

fun caught :: "exn \<Rightarrow> bool" where
  "caught EOFError = True"
| "caught PickleError = True"
| "caught PicklingError = True"
| "caught UnpicklingError = True"
| "caught _ = False"

subsection \<open>The world: files, trace, and the state of the wrapped function\<close>

datatype event =
    Exists string
  | OpenRead string
  | OpenWrite string
  | Call "pyval list" "(string \<times> pyval) list"
  | Warning string

record 'u world =
  files :: "string \<rightharpoonup> bytes"
  trace :: "event list"
  ustate :: 'u

text \<open>
  The parameters of one decorated function: the decorator's \<^verbatim>\<open>directory\<close>, the wrapped
  \<^verbatim>\<open>func\<close> (it may raise, and may change a state of its own) with its \<^verbatim>\<open>__name__\<close>, and the
  library: \<^verbatim>\<open>pickle.dumps\<close>; \<^verbatim>\<open>dill.dumps\<close>, absent when \<^verbatim>\<open>import dill\<close> fails; \<^verbatim>\<open>hashlib.md5\<close> as
  the 128-bit digest; \<^verbatim>\<open>pickle.dump\<close> into a file, as the bytes that reach the file and the
  exception raised, if any; \<^verbatim>\<open>pickle.load\<close> on a file's contents. The serializers are functions
  of the objects they are given, sharing included.
\<close>

record 'u env =
  directory :: string
  func_name :: string
  func :: "pyval list \<Rightarrow> (string \<times> pyval) list \<Rightarrow> 'u \<Rightarrow> (exn + pyval) \<times> 'u"
  pickle_dumps :: "pyval \<Rightarrow> exn + bytes"
  dill_dumps :: "(pyval \<Rightarrow> exn + bytes) option"
  md5 :: "bytes \<Rightarrow> 128 word"
  pickle_dump :: "pyval \<Rightarrow> bytes \<times> exn option"
  pickle_load :: "bytes \<Rightarrow> exn + pyval"

subsection \<open>Binding the call to the wrapper's signature (line 44)\<close>

text \<open>
  \<^verbatim>\<open>def wrapper(*args, use_cache=True, refresh_cache=False, cache_nonce=None,
  use_dill=False, **kwargs)\<close>: a call supplies positional arguments and keyword arguments
  (a list of distinct names with their values, in the caller's order). The four
  keyword-only parameters take their values from the keywords of that name, or their
  defaults; \<^verbatim>\<open>kwargs\<close> receives the other keywords, in the caller's order.
\<close>

definition control_names :: "string list" where
  "control_names = [''use_cache'', ''refresh_cache'', ''cache_nonce'', ''use_dill'']"

definition option_value :: "string \<Rightarrow> pyval \<Rightarrow> (string \<times> pyval) list \<Rightarrow> pyval" where
  "option_value name dflt kw = (case map_of kw name of None \<Rightarrow> dflt | Some v \<Rightarrow> v)"

definition use_cache_of :: "(string \<times> pyval) list \<Rightarrow> pyval" where
  "use_cache_of kw = option_value ''use_cache'' (PBool True) kw"

definition refresh_cache_of :: "(string \<times> pyval) list \<Rightarrow> pyval" where
  "refresh_cache_of kw = option_value ''refresh_cache'' (PBool False) kw"

definition cache_nonce_of :: "(string \<times> pyval) list \<Rightarrow> pyval" where
  "cache_nonce_of kw = option_value ''cache_nonce'' PNone kw"

definition use_dill_of :: "(string \<times> pyval) list \<Rightarrow> pyval" where
  "use_dill_of kw = option_value ''use_dill'' (PBool False) kw"

definition kwargs_of :: "(string \<times> pyval) list \<Rightarrow> (string \<times> pyval) list" where
  "kwargs_of kw = filter (\<lambda>(k, v). k \<notin> set control_names) kw"

subsection \<open>Key derivation (lines 46 to 60)\<close>

text \<open>Line 46: \<^verbatim>\<open>cache_keys = [func.__name__, args, kwargs, cache_nonce]\<close>.\<close>

definition cache_keys ::
  "'u env \<Rightarrow> pyval list \<Rightarrow> (string \<times> pyval) list \<Rightarrow> pyval \<Rightarrow> pyval" where
  "cache_keys env args kwargs cache_nonce =
     PList [PStr (func_name env), PTuple args,
            PDict (map (\<lambda>(k, v). (PStr k, v)) kwargs), cache_nonce]"

definition dill_message :: string where
  "dill_message = ''Dill is not installed. Please install it to use the use_dill option.''"

text \<open>
  Lines 48 to 55. With \<^verbatim>\<open>use_dill\<close>, both the import and the call of \<^verbatim>\<open>dill.dumps\<close> sit in
  the \<^verbatim>\<open>try\<close>, so an \<^verbatim>\<open>ImportError\<close> from either is raised again with the message of line 53.
\<close>

definition serialize_keys :: "'u env \<Rightarrow> pyval \<Rightarrow> pyval \<Rightarrow> exn + bytes" where
  "serialize_keys env use_dill keys =
     (if truthy use_dill then
        (case dill_dumps env of
           None \<Rightarrow> Inl (ImportError dill_message)
         | Some dumps \<Rightarrow>
             (case dumps keys of
                Inl (ImportError m) \<Rightarrow> Inl (ImportError dill_message)
              | r \<Rightarrow> r))
      else pickle_dumps env keys)"

text \<open>
  \<^verbatim>\<open>hexdigest()\<close>: the 16 bytes of the digest as 32 lower-case hexadecimal digits, the
  first byte first.
\<close>

definition hex_digit :: "nat \<Rightarrow> char" where
  "hex_digit n = ''0123456789abcdef'' ! n"

definition hexdigest :: "128 word \<Rightarrow> string" where
  "hexdigest h = map (\<lambda>i. hex_digit (unat (drop_bit (4 * (31 - i)) h AND 15))) [0..<32]"

text \<open>
  \<^verbatim>\<open>os.path.join(a, b)\<close> on POSIX: an absolute \<open>b\<close> replaces \<open>a\<close>; otherwise \<open>b\<close> is
  appended, after a separator unless \<open>a\<close> is empty or ends with one.
\<close>

definition path_join :: "string \<Rightarrow> string \<Rightarrow> string" where
  "path_join a b =
     (if b \<noteq> [] \<and> hd b = CHR ''/'' then b
      else if a = [] \<or> last a = CHR ''/'' then a @ b
      else a @ ''/'' @ b)"

text \<open>Lines 57 to 60.\<close>

definition filename :: "'u env \<Rightarrow> bytes \<Rightarrow> string" where
  "filename env serialized = hexdigest (md5 env serialized) @ ''.pkl''"

definition cache_path :: "'u env \<Rightarrow> bytes \<Rightarrow> string" where
  "cache_path env serialized = path_join (directory env) (filename env serialized)"

subsection \<open>Reading a record (lines 62 to 69)\<close>

datatype outcome = Hit pyval | Miss | Raised exn

definition warning_message :: "string \<Rightarrow> string" where
  "warning_message path =
     ''Cache file '' @ path @ '' is corrupted or empty. Recomputing result.''"

text \<open>
  Lines 62 (its last operand) to 69: \<^verbatim>\<open>os.path.exists\<close>, and for a file that exists, the
  read under the lock. A record that loads is returned; an exception of line 68 is logged
  and control falls out of the \<^verbatim>\<open>if\<close>; any other exception leaves the wrapper.
\<close>

definition lookup :: "'u env \<Rightarrow> string \<Rightarrow> 'u world \<Rightarrow> outcome \<times> 'u world" where
  "lookup env path w =
     (let w1 = w\<lparr>trace := trace w @ [Exists path]\<rparr> in
      case files w path of
        None \<Rightarrow> (Miss, w1)
      | Some contents \<Rightarrow>
          (let w2 = w1\<lparr>trace := trace w1 @ [OpenRead path]\<rparr> in
           case pickle_load env contents of
             Inr result \<Rightarrow> (Hit result, w2)
           | Inl e \<Rightarrow>
               if caught e
               then (Miss, w2\<lparr>trace := trace w2 @ [Warning (warning_message path)]\<rparr>)
               else (Raised e, w2)))"

subsection \<open>Writing a record (lines 72 to 74)\<close>

text \<open>
  \<^verbatim>\<open>open(cache_path, "wb")\<close> creates the file or truncates it to length zero; then
  \<^verbatim>\<open>pickle.dump\<close> writes what it writes, and raises or not.
\<close>

definition store :: "'u env \<Rightarrow> string \<Rightarrow> pyval \<Rightarrow> 'u world \<Rightarrow> exn option \<times> 'u world" where
  "store env path result w =
     (let w1 = w\<lparr>files := (files w)(path \<mapsto> []), trace := trace w @ [OpenWrite path]\<rparr>;
          (written, err) = pickle_dump env result
      in (err, w1\<lparr>files := (files w1)(path \<mapsto> written)\<rparr>))"

subsection \<open>The wrapper (lines 44 to 76)\<close>

text \<open>Lines 71 to 76: call the wrapped function, write the record, return the result.\<close>

definition compute_and_store ::
  "'u env \<Rightarrow> pyval list \<Rightarrow> (string \<times> pyval) list \<Rightarrow> string \<Rightarrow> 'u world
     \<Rightarrow> (exn + pyval) \<times> 'u world" where
  "compute_and_store env args kwargs path w =
     (let (r, u) = func env args kwargs (ustate w);
          w1 = w\<lparr>trace := trace w @ [Call args kwargs], ustate := u\<rparr>
      in case r of
           Inl e \<Rightarrow> (Inl e, w1)
         | Inr result \<Rightarrow>
             (case store env path result w1 of
                (Some e, w2) \<Rightarrow> (Inl e, w2)
              | (None, w2) \<Rightarrow> (Inr result, w2)))"

text \<open>
  The condition of line 62 is evaluated left to right and stops at the first false
  operand, so the file system is only asked when both flags allow a read.
\<close>

definition wrapper ::
  "'u env \<Rightarrow> pyval list \<Rightarrow> (string \<times> pyval) list \<Rightarrow> 'u world \<Rightarrow> (exn + pyval) \<times> 'u world" where
  "wrapper env args kw w =
     (let kwargs = kwargs_of kw;
          keys = cache_keys env args kwargs (cache_nonce_of kw)
      in case serialize_keys env (use_dill_of kw) keys of
           Inl e \<Rightarrow> (Inl e, w)
         | Inr serialized \<Rightarrow>
             (let path = cache_path env serialized
              in case (if truthy (use_cache_of kw) \<and> \<not> truthy (refresh_cache_of kw)
                       then lookup env path w else (Miss, w)) of
                   (Hit result, w1) \<Rightarrow> (Inr result, w1)
                 | (Raised e, w1) \<Rightarrow> (Inl e, w1)
                 | (Miss, w1) \<Rightarrow> compute_and_store env args kwargs path w1))"

text \<open>
  Lines 46 to 55 for one call, as the wrapper runs them: the serialized call signature, or
  the exception that ends the call before any file is touched.
\<close>

definition encode_call ::
  "'u env \<Rightarrow> pyval list \<Rightarrow> (string \<times> pyval) list \<Rightarrow> exn + bytes" where
  "encode_call env args kw =
     serialize_keys env (use_dill_of kw)
       (cache_keys env args (kwargs_of kw) (cache_nonce_of kw))"

definition is_call :: "event \<Rightarrow> bool" where
  "is_call ev = (case ev of Call a k \<Rightarrow> True | _ \<Rightarrow> False)"

subsection \<open>A concrete instance: \<^verbatim>\<open>square\<close> under the decorator\<close>

text \<open>
  To run the wrapper on explicit calls the parameters need values. The serializer below
  writes a value in the opcodes of pickle's text protocol: \<^verbatim>\<open>N\<close> for \<^verbatim>\<open>None\<close>, \<^verbatim>\<open>K\<close> and one
  byte or \<^verbatim>\<open>I\<close> and a decimal line for an integer, \<^verbatim>\<open>V\<close> and a line for a string, a \<^verbatim>\<open>(\<close>
  mark closed by \<^verbatim>\<open>t\<close>, \<^verbatim>\<open>l\<close> or \<^verbatim>\<open>d\<close> for a tuple, a list or a dict, the class (\<^verbatim>\<open>c\<close>), the
  \<^verbatim>\<open>args\<close> and \<^verbatim>\<open>R\<close> for an exception instance, and a final \<^verbatim>\<open>.\<close>. Like pickle it writes the
  items of a container in iteration order, which for a dict is insertion order; it keeps
  a memo of the shared objects it has written, puts a shared object into the memo (\<^verbatim>\<open>p\<close> and
  the next index) after writing it and writes a later occurrence as \<^verbatim>\<open>g\<close> and that index;
  and it refuses an object it cannot write by value (\<open>PObj\<close>: a lambda, a closure) with
  \<^verbatim>\<open>PicklingError\<close>.
\<close>

function decimal :: "nat \<Rightarrow> string" where
  "decimal n =
     (if n < 10 then [char_of (48 + n)]
      else decimal (n div 10) @ [char_of (48 + n mod 10)])"
  by pat_completeness auto
termination
  by (relation "measure id") auto

function picklable :: "pyval \<Rightarrow> bool"
  and picklable_list :: "pyval list \<Rightarrow> bool"
  and picklable_items :: "(pyval \<times> pyval) list \<Rightarrow> bool" where
  "picklable (PTuple xs) = picklable_list xs"
| "picklable (PList xs) = picklable_list xs"
| "picklable (PDict kvs) = picklable_items kvs"
| "picklable (PException name xs) = picklable_list xs"
| "picklable (PIdent n v) = picklable v"
| "picklable (PObj n) = False"
| "picklable PNone = True"
| "picklable (PBool b) = True"
| "picklable (PInt i) = True"
| "picklable (PStr s) = True"
| "picklable_list [] = True"
| "picklable_list (x # xs) = (picklable x \<and> picklable_list xs)"
| "picklable_items [] = True"
| "picklable_items ((k, v) # kvs) = (picklable k \<and> picklable v \<and> picklable_items kvs)"
  by pat_completeness auto
termination
  by (relation "measure (\<lambda>x. case x of
          Inl v \<Rightarrow> size v
        | Inr (Inl xs) \<Rightarrow> size_list size xs
        | Inr (Inr kvs) \<Rightarrow> size_list (size_prod size size) kvs)") auto

text \<open>
  The identities of the shared objects of a value, in the order in which the serializer
  first meets them; the memo after a value is the memo before it and the new ones.
\<close>

function idents :: "pyval \<Rightarrow> nat list"
  and idents_list :: "pyval list \<Rightarrow> nat list"
  and idents_items :: "(pyval \<times> pyval) list \<Rightarrow> nat list" where
  "idents (PIdent n v) = idents v @ [n]"
| "idents (PTuple xs) = idents_list xs"
| "idents (PList xs) = idents_list xs"
| "idents (PDict kvs) = idents_items kvs"
| "idents (PException name xs) = idents_list xs"
| "idents PNone = []"
| "idents (PBool b) = []"
| "idents (PInt i) = []"
| "idents (PStr s) = []"
| "idents (PObj n) = []"
| "idents_list [] = []"
| "idents_list (x # xs) = idents x @ idents_list xs"
| "idents_items [] = []"
| "idents_items ((k, v) # kvs) = idents k @ idents v @ idents_items kvs"
  by pat_completeness auto
termination
  by (relation "measure (\<lambda>x. case x of
          Inl v \<Rightarrow> size v
        | Inr (Inl xs) \<Rightarrow> size_list size xs
        | Inr (Inr kvs) \<Rightarrow> size_list (size_prod size size) kvs)") auto

definition memo_after :: "nat list \<Rightarrow> pyval \<Rightarrow> nat list" where
  "memo_after memo v = rev (remdups (rev (memo @ idents v)))"

fun index_of :: "nat \<Rightarrow> nat list \<Rightarrow> nat" where
  "index_of n [] = 0"
| "index_of n (m # ms) = (if n = m then 0 else Suc (index_of n ms))"

function opcodes :: "nat list \<Rightarrow> pyval \<Rightarrow> bytes"
  and opcodes_list :: "nat list \<Rightarrow> pyval list \<Rightarrow> bytes"
  and opcodes_items :: "nat list \<Rightarrow> (pyval \<times> pyval) list \<Rightarrow> bytes" where
  "opcodes memo PNone = ''N''"
| "opcodes memo (PBool b) = (if b then ''I01'' else ''I00'') @ [CHR 0x0A]"
| "opcodes memo (PInt i) =
     (if 0 \<le> i \<and> i < 256 then [CHR ''K'', char_of i]
      else ''I'' @ (if i < 0 then ''-'' else []) @ decimal (nat \<bar>i\<bar>) @ [CHR 0x0A])"
| "opcodes memo (PStr s) = ''V'' @ s @ [CHR 0x0A]"
| "opcodes memo (PTuple xs) = ''('' @ opcodes_list memo xs @ ''t''"
| "opcodes memo (PList xs) = ''('' @ opcodes_list memo xs @ ''l''"
| "opcodes memo (PDict kvs) = ''('' @ opcodes_items memo kvs @ ''d''"
| "opcodes memo (PException name xs) =
     ''c__main__'' @ [CHR 0x0A] @ name @ [CHR 0x0A] @ ''('' @ opcodes_list memo xs @ ''tR''"
| "opcodes memo (PObj n) = []"
| "opcodes memo (PIdent n v) =
     (if n \<in> set memo then ''g'' @ decimal (index_of n memo) @ [CHR 0x0A]
      else opcodes memo v @ ''p'' @ decimal (length (memo_after memo v)) @ [CHR 0x0A])"
| "opcodes_list memo [] = []"
| "opcodes_list memo (x # xs) = opcodes memo x @ opcodes_list (memo_after memo x) xs"
| "opcodes_items memo [] = []"
| "opcodes_items memo ((k, v) # kvs) =
     opcodes memo k @ opcodes (memo_after memo k) v
       @ opcodes_items (memo_after (memo_after memo k) v) kvs"
  by pat_completeness auto
termination
  by (relation "measure (\<lambda>x. case x of
          Inl (m, v) \<Rightarrow> size v
        | Inr (Inl (m, xs)) \<Rightarrow> size_list size xs
        | Inr (Inr (m, kvs)) \<Rightarrow> size_list (size_prod size size) kvs)") auto

definition text_dumps :: "pyval \<Rightarrow> exn + bytes" where
  "text_dumps v = (if picklable v then Inr (opcodes [] v @ ''.'') else Inl PicklingError)"

text \<open>
  Writing into a file: a value that is refused is refused before the first byte reaches
  the file.
\<close>

definition text_dump :: "pyval \<Rightarrow> bytes \<times> exn option" where
  "text_dump v = (case text_dumps v of Inr b \<Rightarrow> (b, None) | Inl e \<Rightarrow> ([], Some e))"

text \<open>
  A loader for the records the examples need, in a program that defines one class,
  \<^verbatim>\<open>class PairError(Exception): def __init__(self, a, b): super().__init__(a)\<close>. Like
  \<^verbatim>\<open>pickle.load\<close>, it raises \<^verbatim>\<open>EOFError\<close> on an empty file; reads \<^verbatim>\<open>N.\<close>, \<^verbatim>\<open>K\<close> with one byte, and
  an \<^verbatim>\<open>I\<close> line, raising \<^verbatim>\<open>ValueError\<close> when the line is no decimal numeral; calls \<^verbatim>\<open>PairError\<close>
  on the arguments of a record that names it, which raises \<^verbatim>\<open>TypeError\<close> unless there are
  two; raises \<^verbatim>\<open>AttributeError\<close> on a record that names a class (opcode \<^verbatim>\<open>c\<close>) the program
  does not define; and raises \<^verbatim>\<open>UnpicklingError\<close> on bytes that are no pickle.
\<close>

definition int_line :: "string \<Rightarrow> int option" where
  "int_line s =
     (let negative = (s \<noteq> [] \<and> hd s = CHR ''-'');
          ds = (if negative then tl s else s)
      in if ds \<noteq> [] \<and> list_all (\<lambda>c. c \<in> set ''0123456789'') ds
         then Some ((if negative then - 1 else 1)
                      * int (foldl (\<lambda>n c. 10 * n + (of_char c - 48)) 0 ds))
         else None)"

definition pair_error_global :: bytes where
  "pair_error_global = ''c__main__'' @ [CHR 0x0A] @ ''PairError'' @ [CHR 0x0A]"

definition text_load :: "bytes \<Rightarrow> exn + pyval" where
  "text_load bs =
     (if bs = [] then Inl EOFError
      else if bs = ''N.'' then Inr PNone
      else if length bs = 3 \<and> hd bs = CHR ''K'' \<and> last bs = CHR ''.''
        then Inr (PInt (of_char (bs ! 1)))
      else if 3 \<le> length bs \<and> hd bs = CHR ''I''
              \<and> drop (length bs - 2) bs = [CHR 0x0A, CHR ''.'']
        then (let line = take (length bs - 3) (tl bs)
              in if line = ''01'' then Inr (PBool True)
                 else if line = ''00'' then Inr (PBool False)
                 else case int_line line of
                        Some i \<Rightarrow> Inr (PInt i)
                      | None \<Rightarrow> Inl ValueError)
      else if take (length pair_error_global) bs = pair_error_global
        then (let rest = drop (length pair_error_global) bs
              in if length rest = 8 \<and> take 2 rest = ''(K'' \<and> rest ! 3 = CHR ''K''
                    \<and> drop 5 rest = ''tR.''
                 then Inr (PException ''PairError'' [PInt (of_char (rest ! 2))])
                 else Inl TypeError)
      else if hd bs = CHR ''c'' then Inl AttributeError
      else Inl UnpicklingError)"

text \<open>A stand-in for the digest: any function into 128 bits serves the examples.\<close>

definition fold_digest :: "bytes \<Rightarrow> 128 word" where
  "fold_digest bs = foldl (\<lambda>h c. h * 16777619 + of_char c) 2166136261 bs"

text \<open>
  The wrapped functions: \<^verbatim>\<open>square(x)\<close> returns \<open>x * x\<close> and counts its calls, as in
  \<^verbatim>\<open>def square(x): counter += 1; return x * x\<close>; \<^verbatim>\<open>make_adder(n)\<close> returns a closure.
\<close>

fun square :: "pyval list \<Rightarrow> (string \<times> pyval) list \<Rightarrow> nat \<Rightarrow> (exn + pyval) \<times> nat" where
  "square [PInt x] [] counter = (Inr (PInt (x * x)), Suc counter)"
| "square args kwargs counter = (Inl TypeError, counter)"

fun make_adder :: "pyval list \<Rightarrow> (string \<times> pyval) list \<Rightarrow> nat \<Rightarrow> (exn + pyval) \<times> nat" where
  "make_adder [PInt n] [] counter = (Inr (PObj 0), Suc counter)"
| "make_adder args kwargs counter = (Inl TypeError, counter)"

definition square_env :: "nat env" where
  "square_env =
     \<lparr>directory = ''/tmp/hashcache'', func_name = ''square'', func = square,
      pickle_dumps = text_dumps, dill_dumps = None, md5 = fold_digest,
      pickle_dump = text_dump, pickle_load = text_load\<rparr>"

definition adder_env :: "nat env" where
  "adder_env = square_env\<lparr>func_name := ''make_adder'', func := make_adder\<rparr>"

definition empty_world :: "nat world" where
  "empty_world = \<lparr>files = Map.empty, trace = [], ustate = 0\<rparr>"

text \<open>
  The calls and worlds of the examples: \<^verbatim>\<open>square(4)\<close> and \<^verbatim>\<open>make_adder(1)\<close> with their
  serialized signatures and record paths in this instance, a world holding one record, and
  a record whose bytes have been damaged: an \<^verbatim>\<open>I\<close> line that is no numeral.
\<close>

definition square4_key :: bytes where
  "square4_key = ''(Vsquare'' @ [CHR 0x0A, CHR ''('', CHR ''K'', CHR 0x04] @ ''t(dNl.''"

definition square4_path :: string where
  "square4_path = ''/tmp/hashcache/ae1ec8b0fb46bc9988b079ba1b7ed91b.pkl''"

definition adder1_path :: string where
  "adder1_path = ''/tmp/hashcache/66d37c1dee0e3eebaecc56be8493c0c8.pkl''"

definition recorded_world :: "string \<Rightarrow> bytes \<Rightarrow> nat world" where
  "recorded_world path contents =
     \<lparr>files = Map.empty(path \<mapsto> contents), trace = [], ustate = 0\<rparr>"

definition corrupted_record :: bytes where
  "corrupted_record = ''I12abc'' @ [CHR 0x0A] @ ''.''"

section \<open>Properties\<close>

subsection \<open>What each step does to the world\<close>

lemma lookup_absent:
  "files w path = None \<Longrightarrow> lookup env path w = (Miss, w\<lparr>trace := trace w @ [Exists path]\<rparr>)"
  by (simp add: lookup_def)

lemma lookup_hit:
  "files w path = Some c \<Longrightarrow> pickle_load env c = Inr r \<Longrightarrow>
   lookup env path w = (Hit r, w\<lparr>trace := trace w @ [Exists path, OpenRead path]\<rparr>)"
  by (simp add: lookup_def)

lemma lookup_caught:
  "files w path = Some c \<Longrightarrow> pickle_load env c = Inl e \<Longrightarrow> caught e \<Longrightarrow>
   lookup env path w =
     (Miss, w\<lparr>trace := trace w @ [Exists path, OpenRead path, Warning (warning_message path)]\<rparr>)"
  by (simp add: lookup_def)

lemma lookup_raised:
  "files w path = Some c \<Longrightarrow> pickle_load env c = Inl e \<Longrightarrow> \<not> caught e \<Longrightarrow>
   lookup env path w = (Raised e, w\<lparr>trace := trace w @ [Exists path, OpenRead path]\<rparr>)"
  by (simp add: lookup_def)

lemma lookup_frame:
  "lookup env path w = (out, w') \<Longrightarrow>
   files w' = files w \<and> ustate w' = ustate w \<and>
   (\<exists>evs. trace w' = trace w @ evs \<and> (\<forall>a k. Call a k \<notin> set evs))"
  by (auto simp: lookup_def Let_def split: option.splits sum.splits if_splits)

lemma store_eq:
  "pickle_dump env v = (written, err) \<Longrightarrow>
   store env path v w =
     (err, w\<lparr>files := (files w)(path \<mapsto> written), trace := trace w @ [OpenWrite path]\<rparr>)"
  by (simp add: store_def)

lemma compute_and_store_raise:
  "func env args kwargs (ustate w) = (Inl e, u) \<Longrightarrow>
   compute_and_store env args kwargs path w =
     (Inl e, w\<lparr>trace := trace w @ [Call args kwargs], ustate := u\<rparr>)"
  by (simp add: compute_and_store_def)

lemma compute_and_store_ok:
  "func env args kwargs (ustate w) = (Inr r, u) \<Longrightarrow> pickle_dump env r = (written, None) \<Longrightarrow>
   compute_and_store env args kwargs path w =
     (Inr r, w\<lparr>files := (files w)(path \<mapsto> written),
               trace := trace w @ [Call args kwargs, OpenWrite path], ustate := u\<rparr>)"
  by (simp add: compute_and_store_def store_def)

lemma compute_and_store_dump_fails:
  "func env args kwargs (ustate w) = (Inr r, u) \<Longrightarrow> pickle_dump env r = (written, Some e) \<Longrightarrow>
   compute_and_store env args kwargs path w =
     (Inl e, w\<lparr>files := (files w)(path \<mapsto> written),
               trace := trace w @ [Call args kwargs, OpenWrite path], ustate := u\<rparr>)"
  by (simp add: compute_and_store_def store_def)

lemma compute_and_store_trace:
  "compute_and_store env args kwargs path w = (r, w') \<Longrightarrow>
   \<exists>evs. trace w' = trace w @ Call args kwargs # evs \<and>
     (\<forall>a k. Call a k \<notin> set evs) \<and> (\<forall>p. Exists p \<notin> set evs \<and> OpenRead p \<notin> set evs)"
  by (auto simp: compute_and_store_def store_def Let_def
           split: prod.splits sum.splits option.splits)

lemma wrapper_encode_fails:
  "encode_call env args kw = Inl e \<Longrightarrow> wrapper env args kw w = (Inl e, w)"
  by (simp add: wrapper_def encode_call_def)

lemma wrapper_encoded:
  "encode_call env args kw = Inr s \<Longrightarrow>
   wrapper env args kw w =
     (case (if truthy (use_cache_of kw) \<and> \<not> truthy (refresh_cache_of kw)
            then lookup env (cache_path env s) w else (Miss, w)) of
        (Hit result, w1) \<Rightarrow> (Inr result, w1)
      | (Raised e, w1) \<Rightarrow> (Inl e, w1)
      | (Miss, w1) \<Rightarrow> compute_and_store env args (kwargs_of kw) (cache_path env s) w1)"
  by (simp add: wrapper_def encode_call_def Let_def)

lemma wrapper_no_lookup:
  "encode_call env args kw = Inr s \<Longrightarrow> \<not> (truthy (use_cache_of kw) \<and> \<not> truthy (refresh_cache_of kw)) \<Longrightarrow>
   wrapper env args kw w = compute_and_store env args (kwargs_of kw) (cache_path env s) w"
  by (auto simp: wrapper_encoded)

lemma wrapper_lookup:
  "encode_call env args kw = Inr s \<Longrightarrow> truthy (use_cache_of kw) \<Longrightarrow> \<not> truthy (refresh_cache_of kw) \<Longrightarrow>
   wrapper env args kw w =
     (case lookup env (cache_path env s) w of
        (Hit result, w1) \<Rightarrow> (Inr result, w1)
      | (Raised e, w1) \<Rightarrow> (Inl e, w1)
      | (Miss, w1) \<Rightarrow> compute_and_store env args (kwargs_of kw) (cache_path env s) w1)"
  by (simp add: wrapper_encoded)

lemma hex_digit_range: "n < 16 \<Longrightarrow> hex_digit n \<in> set ''0123456789abcdef''"
  unfolding hex_digit_def by (rule nth_mem) simp

lemma nibble_less: "unat ((x :: 128 word) AND 15) < 16"
proof -
  have "x AND 15 \<le> 15" by (rule word_and_le1)
  then have "unat (x AND 15) \<le> unat (15 :: 128 word)" by (simp add: word_le_nat_alt)
  then show ?thesis by simp
qed

lemma length_hexdigest: "length (hexdigest h) = 32"
  by (simp add: hexdigest_def)

lemma set_hexdigest: "set (hexdigest h) \<subseteq> set ''0123456789abcdef''"
  unfolding hexdigest_def using hex_digit_range [OF nibble_less] by auto

lemma hexdigest_not_absolute: "hexdigest h \<noteq> [] \<and> hd (hexdigest h) \<noteq> CHR ''/''"
proof -
  have ne: "hexdigest h \<noteq> []" using length_hexdigest [of h] by auto
  then have "hd (hexdigest h) \<in> set (hexdigest h)" by simp
  then have "hd (hexdigest h) \<in> set ''0123456789abcdef''" using set_hexdigest by blast
  then have "hd (hexdigest h) \<noteq> CHR ''/''" by auto
  with ne show ?thesis by simp
qed

lemma cache_path_eq:
  "cache_path env s =
     directory env @ (if directory env = [] \<or> last (directory env) = CHR ''/'' then [] else ''/'')
       @ hexdigest (md5 env s) @ ''.pkl''"
  using hexdigest_not_absolute [of "md5 env s"]
  by (simp add: cache_path_def filename_def path_join_def)

subsection \<open>The claims\<close>

text \<open>
  Claim C8. A call that asks for the richer serializer (\<^verbatim>\<open>use_dill\<close> true) where dill cannot be
  imported fails at once with \<^verbatim>\<open>ImportError\<close>, the wrapper's missing-dependency error: nothing
  is read, written or called, and the default serializer is not used in its place, whatever
  it would have produced.
\<close>
theorem dill_unavailable_raises_import_error:
  assumes "truthy (use_dill_of kw)" and "dill_dumps env = None"
  shows "wrapper env args kw w = (Inl (ImportError dill_message), w) \<and>
         (\<forall>dumps. wrapper (env\<lparr>pickle_dumps := dumps\<rparr>) args kw w
                    = (Inl (ImportError dill_message), w))"
proof -
  have "encode_call e args kw = Inl (ImportError dill_message)"
    if "dill_dumps e = None" for e :: "'a env"
    using assms(1) that by (simp add: encode_call_def serialize_keys_def)
  then show ?thesis using assms(2) by (simp add: wrapper_encode_fails)
qed

theorem dill_unavailable_raises_import_error_witness:
  "truthy (use_dill_of [(''use_dill'', PBool True)]) \<and> dill_dumps square_env = None \<and>
   wrapper square_env [PInt 4] [(''use_dill'', PBool True)] empty_world
     = (Inl (ImportError dill_message), empty_world)"
proof -
  have h1: "truthy (use_dill_of [(''use_dill'', PBool True)])" by code_simp
  have h2: "dill_dumps square_env = None" by code_simp
  from dill_unavailable_raises_import_error [OF h1 h2, of "[PInt 4]" empty_world] h1 h2
  show ?thesis by simp
qed

text \<open>
  Claim C9, as stated, fails: the record of \<^verbatim>\<open>square(4)\<close> is the file with the extension
  \<^verbatim>\<open>.pkl\<close>, not \<^verbatim>\<open>.cache\<close>.
\<close>

theorem cache_path_extension_counterexample:
  "cache_path square_env square4_key = ''/tmp/hashcache/ae1ec8b0fb46bc9988b079ba1b7ed91b.pkl'' \<and>
   cache_path square_env square4_key
     \<noteq> directory square_env @ ''/'' @ hexdigest (md5 square_env square4_key) @ ''.cache''"
  by code_simp

text \<open>
  Claim C9, amended. The record of a call is one file in the cache directory, named by the
  32 hexadecimal digits of the 128-bit digest of the serialized call signature followed by
  the extension \<^verbatim>\<open>.pkl\<close>: its path is the directory, a separator unless the directory is
  empty or ends with one, the digits, and \<^verbatim>\<open>.pkl\<close>.
\<close>

theorem cache_path_is_hexdigest_pkl:
  "cache_path env serialized =
     directory env
       @ (if directory env = [] \<or> last (directory env) = CHR ''/'' then [] else ''/'')
       @ hexdigest (md5 env serialized) @ ''.pkl'' \<and>
   length (hexdigest (md5 env serialized)) = 32 \<and>
   set (hexdigest (md5 env serialized)) \<subseteq> set ''0123456789abcdef''"
  using cache_path_eq [of env serialized] length_hexdigest set_hexdigest by blast

theorem cache_path_is_hexdigest_pkl_witness:
  "cache_path square_env square4_key =
     ''/tmp/hashcache'' @ ''/'' @ ''ae1ec8b0fb46bc9988b079ba1b7ed91b'' @ ''.pkl'' \<and>
   hexdigest (md5 square_env square4_key) = ''ae1ec8b0fb46bc9988b079ba1b7ed91b''"
proof -
  have h: "hexdigest (md5 square_env square4_key) = ''ae1ec8b0fb46bc9988b079ba1b7ed91b''"
    by code_simp
  have d: "directory square_env = ''/tmp/hashcache''" by code_simp
  from cache_path_is_hexdigest_pkl [of square_env square4_key] show ?thesis
    by (simp add: h d)
qed

text \<open>
  Claim C10. The four control options are consumed by the wrapper: every call of the
  wrapped function that a call of the wrapper makes passes exactly the caller's positional
  arguments and the caller's keyword arguments without \<^verbatim>\<open>use_cache\<close>, \<^verbatim>\<open>refresh_cache\<close>,
  \<^verbatim>\<open>cache_nonce\<close> and \<^verbatim>\<open>use_dill\<close>, in the caller's order; and the wrapper's outcome depends
  on the wrapped function only through its behaviour on those arguments.
\<close>

theorem control_options_not_forwarded:
  assumes "wrapper env args kw w = (r, w')"
  shows "(\<exists>evs. trace w' = trace w @ evs \<and>
            (\<forall>a k. Call a k \<in> set evs \<longrightarrow>
               a = args \<and>
               k = filter (\<lambda>(n, v). n \<notin> {''use_cache'', ''refresh_cache'',
                                              ''cache_nonce'', ''use_dill''}) kw)) \<and>
         (\<forall>g. g args (kwargs_of kw) = func env args (kwargs_of kw) \<longrightarrow>
            wrapper (env\<lparr>func := g\<rparr>) args kw w = (r, w'))"
proof -
  have kwargs: "kwargs_of kw = filter (\<lambda>(n, v). n \<notin> {''use_cache'', ''refresh_cache'',
                                              ''cache_nonce'', ''use_dill''}) kw"
    by (simp add: kwargs_of_def control_names_def)
  have calls: "\<exists>evs. trace w' = trace w @ evs \<and>
                 (\<forall>a k. Call a k \<in> set evs \<longrightarrow> a = args \<and> k = kwargs_of kw)"
  proof (cases "encode_call env args kw")
    case (Inl e)
    with assms have "w' = w" by (simp add: wrapper_encode_fails)
    then show ?thesis by simp
  next
    case (Inr s)
    let ?p = "cache_path env s"
    show ?thesis
    proof (cases "truthy (use_cache_of kw) \<and> \<not> truthy (refresh_cache_of kw)")
      case False
      with Inr assms have "compute_and_store env args (kwargs_of kw) ?p w = (r, w')"
        by (simp add: wrapper_no_lookup)
      from compute_and_store_trace [OF this] show ?thesis by auto
    next
      case True
      obtain out w1 where lk: "lookup env ?p w = (out, w1)" by (cases "lookup env ?p w")
      from lookup_frame [OF lk] obtain evs1 where
        t1: "trace w1 = trace w @ evs1" and n1: "\<forall>a k. Call a k \<notin> set evs1" by blast
      show ?thesis
      proof (cases out)
        case (Hit v)
        with Inr True lk assms have "w' = w1" by (simp add: wrapper_encoded)
        with t1 n1 show ?thesis by auto
      next
        case (Raised e)
        with Inr True lk assms have "w' = w1" by (simp add: wrapper_encoded)
        with t1 n1 show ?thesis by auto
      next
        case Miss
        with Inr True lk assms have "compute_and_store env args (kwargs_of kw) ?p w1 = (r, w')"
          by (simp add: wrapper_encoded)
        from compute_and_store_trace [OF this] obtain evs2 where
          t2: "trace w' = trace w1 @ Call args (kwargs_of kw) # evs2"
          and n2: "\<forall>a k. Call a k \<notin> set evs2" by blast
        from t1 t2 have "trace w' = trace w @ (evs1 @ Call args (kwargs_of kw) # evs2)" by simp
        moreover from n1 n2 have
          "\<forall>a k. Call a k \<in> set (evs1 @ Call args (kwargs_of kw) # evs2)
                   \<longrightarrow> a = args \<and> k = kwargs_of kw" by auto
        ultimately show ?thesis by blast
      qed
    qed
  qed
  have same: "wrapper (env\<lparr>func := g\<rparr>) args kw w = wrapper env args kw w"
    if g: "g args (kwargs_of kw) = func env args (kwargs_of kw)" for g
  proof -
    let ?env = "env\<lparr>func := g\<rparr>"
    have e: "encode_call ?env args kw = encode_call env args kw"
      by (simp add: encode_call_def serialize_keys_def cache_keys_def)
    have p: "cache_path ?env s = cache_path env s" for s
      by (simp add: cache_path_def filename_def)
    have l: "lookup ?env q v = lookup env q v" for q v
      by (simp add: lookup_def Let_def split: option.splits)
    have c: "compute_and_store ?env args (kwargs_of kw) q v
               = compute_and_store env args (kwargs_of kw) q v" for q v
      using g by (simp add: compute_and_store_def store_def Let_def split: prod.splits sum.splits)
    show ?thesis
    proof (cases "encode_call env args kw")
      case (Inl x)
      then show ?thesis using e by (simp add: wrapper_encode_fails)
    next
      case (Inr s)
      then have "encode_call ?env args kw = Inr s" using e by simp
      from wrapper_encoded [OF this, of w] wrapper_encoded [OF Inr, of w] show ?thesis
        by (simp add: p l c split: prod.splits outcome.splits)
    qed
  qed
  from calls kwargs same assms show ?thesis by simp
qed

theorem control_options_not_forwarded_witness:
  "trace (snd (wrapper square_env [PInt 4] [(''use_cache'', PBool False), (''scale'', PInt 2),
                                            (''cache_nonce'', PInt 7)] empty_world))
     = [Call [PInt 4] [(''scale'', PInt 2)]] \<and>
   (\<exists>evs. trace (snd (wrapper square_env [PInt 4] [(''use_cache'', PBool False),
              (''scale'', PInt 2), (''cache_nonce'', PInt 7)] empty_world))
             = trace empty_world @ evs \<and>
      (\<forall>a k. Call a k \<in> set evs \<longrightarrow> a = [PInt 4] \<and> k = [(''scale'', PInt 2)]))"
proof -
  let ?kw = "[(''use_cache'', PBool False), (''scale'', PInt 2), (''cache_nonce'', PInt 7)]"
  let ?out = "wrapper square_env [PInt 4] ?kw empty_world"
  have h: "?out = (fst ?out, snd ?out)" by simp
  have t: "trace (snd ?out) = [Call [PInt 4] [(''scale'', PInt 2)]]" by code_simp
  from control_options_not_forwarded [OF h] t show ?thesis by simp
qed

text \<open>
  Claim C7. A call with \<^verbatim>\<open>use_cache\<close> and \<^verbatim>\<open>refresh_cache\<close> both true, whose signature the
  serializer encodes, asks the file system nothing and reads no record, whatever the files
  hold: its first effect is the call of the wrapped function. When that call returns a
  result the serializer can write, the result is returned and its bytes replace whatever
  was at the key's path.
\<close>

theorem refresh_recomputes_and_overwrites:
  assumes "truthy (use_cache_of kw)" and "truthy (refresh_cache_of kw)"
    and "encode_call env args kw = Inr s"
  shows "(\<exists>r w' evs. wrapper env args kw w = (r, w') \<and>
            trace w' = trace w @ Call args (kwargs_of kw) # evs \<and>
            (\<forall>p. Exists p \<notin> set evs \<and> OpenRead p \<notin> set evs)) \<and>
         (func env args (kwargs_of kw) (ustate w) = (Inr result, u) \<longrightarrow>
          pickle_dump env result = (written, None) \<longrightarrow>
          wrapper env args kw w =
            (Inr result,
             w\<lparr>files := (files w)(cache_path env s \<mapsto> written),
               trace := trace w @ [Call args (kwargs_of kw), OpenWrite (cache_path env s)],
               ustate := u\<rparr>))"
proof -
  have w: "wrapper env args kw w = compute_and_store env args (kwargs_of kw) (cache_path env s) w"
    using assms by (simp add: wrapper_no_lookup)
  obtain r w' where rw: "compute_and_store env args (kwargs_of kw) (cache_path env s) w = (r, w')"
    by (cases "compute_and_store env args (kwargs_of kw) (cache_path env s) w")
  from compute_and_store_trace [OF rw] w rw have first: "\<exists>r w' evs. wrapper env args kw w = (r, w') \<and>
            trace w' = trace w @ Call args (kwargs_of kw) # evs \<and>
            (\<forall>p. Exists p \<notin> set evs \<and> OpenRead p \<notin> set evs)"
    by auto
  from w first show ?thesis by (auto simp: compute_and_store_ok)
qed

theorem refresh_recomputes_and_overwrites_witness:
  "files (recorded_world square4_path [CHR ''K'', CHR 0x09, CHR ''.'']) square4_path
     = Some [CHR ''K'', CHR 0x09, CHR ''.''] \<and>
   wrapper square_env [PInt 4] [(''refresh_cache'', PBool True)]
       (recorded_world square4_path [CHR ''K'', CHR 0x09, CHR ''.''])
     = (Inr (PInt 16),
        (recorded_world square4_path [CHR ''K'', CHR 0x09, CHR ''.''])
          \<lparr>files := (files (recorded_world square4_path [CHR ''K'', CHR 0x09, CHR ''.'']))
                      (square4_path \<mapsto> [CHR ''K'', CHR 0x10, CHR ''.'']),
           trace := [Call [PInt 4] [], OpenWrite square4_path],
           ustate := 1\<rparr>)"
proof -
  let ?kw = "[(''refresh_cache'', PBool True)]"
  let ?w = "recorded_world square4_path [CHR ''K'', CHR 0x09, CHR ''.'']"
  have h1: "truthy (use_cache_of ?kw)" by code_simp
  have h2: "truthy (refresh_cache_of ?kw)" by code_simp
  have h3: "encode_call square_env [PInt 4] ?kw = Inr square4_key" by code_simp
  have h4: "func square_env [PInt 4] (kwargs_of ?kw) (ustate ?w) = (Inr (PInt 16), 1)"
    by code_simp
  have h5: "pickle_dump square_env (PInt 16) = ([CHR ''K'', CHR 0x10, CHR ''.''], None)"
    by code_simp
  have p: "cache_path square_env square4_key = square4_path" by code_simp
  have k: "kwargs_of ?kw = []" by code_simp
  have f: "files ?w square4_path = Some [CHR ''K'', CHR 0x09, CHR ''.'']" by code_simp
  have t: "trace ?w = []" by code_simp
  from refresh_recomputes_and_overwrites [OF h1 h2 h3, of ?w "PInt 16" 1 "[CHR ''K'', CHR 0x10, CHR ''.'']"]
    h4 h5
  show ?thesis by (simp add: p k f t)
qed

text \<open>
  Claim C5. Two calls with the same arguments, \<^verbatim>\<open>use_cache\<close> true and \<^verbatim>\<open>refresh_cache\<close> false,
  starting where the key has no record, the wrapped function returns a result, and that
  result survives the serializer's round trip: the first call invokes the wrapped function
  and stores the result; the second finds the record and returns the same result without
  invoking it. Over both calls the function is invoked exactly once.
\<close>

theorem second_call_served_from_record:
  assumes "truthy (use_cache_of kw)" and "\<not> truthy (refresh_cache_of kw)"
    and "encode_call env args kw = Inr s"
    and "files w (cache_path env s) = None"
    and "func env args (kwargs_of kw) (ustate w) = (Inr result, u)"
    and "pickle_dump env result = (written, None)"
    and "pickle_load env written = Inr result"
    and "wrapper env args kw w = (r1, w1)"
    and "wrapper env args kw w1 = (r2, w2)"
  shows "r1 = Inr result \<and> r2 = Inr result \<and>
         trace w1 = trace w @ [Exists (cache_path env s), Call args (kwargs_of kw),
                               OpenWrite (cache_path env s)] \<and>
         trace w2 = trace w1 @ [Exists (cache_path env s), OpenRead (cache_path env s)] \<and>
         ustate w2 = u \<and>
         length (filter is_call (trace w2)) = length (filter is_call (trace w)) + 1"
proof -
  let ?p = "cache_path env s"
  let ?wa = "w\<lparr>trace := trace w @ [Exists ?p]\<rparr>"
  let ?wb = "?wa\<lparr>files := (files ?wa)(?p \<mapsto> written),
                  trace := trace ?wa @ [Call args (kwargs_of kw), OpenWrite ?p],
                  ustate := u\<rparr>"
  have fa: "func env args (kwargs_of kw) (ustate ?wa) = (Inr result, u)"
    using assms(5) by simp
  have first: "wrapper env args kw w = (Inr result, ?wb)"
    using assms(1-3) lookup_absent [OF assms(4), of env]
          compute_and_store_ok [OF fa assms(6), of ?p]
    by (simp add: wrapper_lookup)
  with assms(8) have r1: "r1 = Inr result" and w1: "w1 = ?wb" by simp_all
  have fb: "files ?wb ?p = Some written" by simp
  have second: "wrapper env args kw ?wb
                  = (Inr result, ?wb\<lparr>trace := trace ?wb @ [Exists ?p, OpenRead ?p]\<rparr>)"
    using assms(1-3) lookup_hit [OF fb assms(7)] by (simp add: wrapper_lookup)
  with assms(9) w1 have r2: "r2 = Inr result"
    and w2: "w2 = ?wb\<lparr>trace := trace ?wb @ [Exists ?p, OpenRead ?p]\<rparr>" by simp_all
  from r1 r2 w1 w2 show ?thesis by (simp add: is_call_def)
qed

theorem second_call_served_from_record_witness:
  "fst (wrapper square_env [PInt 4] [] empty_world) = Inr (PInt 16) \<and>
   fst (wrapper square_env [PInt 4] [] (snd (wrapper square_env [PInt 4] [] empty_world)))
     = Inr (PInt 16) \<and>
   trace (snd (wrapper square_env [PInt 4] [] (snd (wrapper square_env [PInt 4] [] empty_world))))
     = [Exists square4_path, Call [PInt 4] [], OpenWrite square4_path,
        Exists square4_path, OpenRead square4_path] \<and>
   ustate (snd (wrapper square_env [PInt 4] [] (snd (wrapper square_env [PInt 4] [] empty_world))))
     = 1"
proof -
  let ?o1 = "wrapper square_env [PInt 4] [] empty_world"
  let ?o2 = "wrapper square_env [PInt 4] [] (snd ?o1)"
  have h1: "truthy (use_cache_of [])" by code_simp
  have h2: "\<not> truthy (refresh_cache_of [])" by code_simp
  have h3: "encode_call square_env [PInt 4] [] = Inr square4_key" by code_simp
  have h4: "files empty_world (cache_path square_env square4_key) = None" by code_simp
  have h5: "func square_env [PInt 4] (kwargs_of []) (ustate empty_world) = (Inr (PInt 16), 1)"
    by code_simp
  have h6: "pickle_dump square_env (PInt 16) = ([CHR ''K'', CHR 0x10, CHR ''.''], None)"
    by code_simp
  have h7: "pickle_load square_env [CHR ''K'', CHR 0x10, CHR ''.''] = Inr (PInt 16)"
    by code_simp
  have h8: "?o1 = (fst ?o1, snd ?o1)" by simp
  have h9: "?o2 = (fst ?o2, snd ?o2)" by simp
  have p: "cache_path square_env square4_key = square4_path" by code_simp
  have k: "kwargs_of [] = []" by code_simp
  have t: "trace empty_world = []" by code_simp
  from second_call_served_from_record [OF h1 h2 h3 h4 h5 h6 h7 h8 h9]
  show ?thesis by (simp add: p k t)
qed

text \<open>
  Claim C1 says that a call with \<^verbatim>\<open>use_cache\<close> false neither reads nor writes a record. The
  read is skipped, but lines 72 to 74 are not guarded by the flag: \<^verbatim>\<open>square(4,
  use_cache=False)\<close> in an empty cache directory calls \<^verbatim>\<open>square\<close>, returns 16, and leaves a
  record file behind.
\<close>

theorem use_cache_false_still_writes_record:
  "fst (wrapper square_env [PInt 4] [(''use_cache'', PBool False)] empty_world) = Inr (PInt 16) \<and>
   files empty_world square4_path = None \<and>
   files (snd (wrapper square_env [PInt 4] [(''use_cache'', PBool False)] empty_world))
       square4_path = Some [CHR ''K'', CHR 0x10, CHR ''.''] \<and>
   trace (snd (wrapper square_env [PInt 4] [(''use_cache'', PBool False)] empty_world))
     = [Call [PInt 4] [], OpenWrite square4_path]"
  by code_simp

text \<open>
  Claim C2, as stated, fails. \<^verbatim>\<open>make_adder(1, refresh_cache=True)\<close> returns a closure, which
  the serializer refuses; the call raises \<^verbatim>\<open>PicklingError\<close>, but the record that was at the
  key has been emptied by then.
\<close>

theorem failed_store_truncates_counterexample:
  "fst (wrapper adder_env [PInt 1] [(''refresh_cache'', PBool True)]
          (recorded_world adder1_path [CHR ''K'', CHR 0x02, CHR ''.''])) = Inl PicklingError \<and>
   files (recorded_world adder1_path [CHR ''K'', CHR 0x02, CHR ''.'']) adder1_path
     = Some [CHR ''K'', CHR 0x02, CHR ''.''] \<and>
   files (snd (wrapper adder_env [PInt 1] [(''refresh_cache'', PBool True)]
                 (recorded_world adder1_path [CHR ''K'', CHR 0x02, CHR ''.''])))
       adder1_path = Some []"
  by code_simp

text \<open>
  Claim C2, amended. When the serializer fails on the value, \<^verbatim>\<open>store\<close> fails with the
  serializer's exception and so does the call of the wrapper; the file at the key has by
  then been created or truncated by opening it for writing, and holds exactly the bytes the
  serializer wrote before it failed, not the previous record. Every other file is as it
  was.
\<close>

theorem failed_store_leaves_partial_record:
  assumes "pickle_dump env result = (written, Some e)"
    and "func env args kwargs (ustate w) = (Inr result, u)"
  shows "fst (store env path result w) = Some e \<and>
         files (snd (store env path result w)) = (files w)(path \<mapsto> written) \<and>
         fst (compute_and_store env args kwargs path w) = Inl e \<and>
         files (snd (compute_and_store env args kwargs path w)) = (files w)(path \<mapsto> written)"
  using store_eq [OF assms(1), of path w] compute_and_store_dump_fails [OF assms(2) assms(1), of path]
  by simp

theorem failed_store_leaves_partial_record_witness:
  "fst (store adder_env adder1_path (PObj 0)
          (recorded_world adder1_path [CHR ''K'', CHR 0x02, CHR ''.''])) = Some PicklingError \<and>
   files (snd (store adder_env adder1_path (PObj 0)
                 (recorded_world adder1_path [CHR ''K'', CHR 0x02, CHR ''.''])))
     = (files (recorded_world adder1_path [CHR ''K'', CHR 0x02, CHR ''.'']))(adder1_path \<mapsto> []) \<and>
   fst (compute_and_store adder_env [PInt 1] [] adder1_path
          (recorded_world adder1_path [CHR ''K'', CHR 0x02, CHR ''.''])) = Inl PicklingError"
proof -
  let ?w = "recorded_world adder1_path [CHR ''K'', CHR 0x02, CHR ''.'']"
  have h1: "pickle_dump adder_env (PObj 0) = ([], Some PicklingError)" by code_simp
  have h2: "func adder_env [PInt 1] [] (ustate ?w) = (Inr (PObj 0), 1)" by code_simp
  from failed_store_leaves_partial_record [OF h1 h2, of adder1_path]
  show ?thesis by simp
qed

text \<open>
  Claim C6, as stated, fails. An instance of \<^verbatim>\<open>PairError\<close> is serializable: \<^verbatim>\<open>store\<close> succeeds
  and writes its class and its one-element \<^verbatim>\<open>args\<close>. Loading that record calls \<^verbatim>\<open>PairError\<close>
  with one argument, so \<^verbatim>\<open>lookup\<close> raises \<^verbatim>\<open>TypeError\<close> instead of returning the value.
\<close>

theorem store_lookup_roundtrip_counterexample:
  "fst (store square_env square4_path (PException ''PairError'' [PInt 1]) empty_world) = None \<and>
   files (snd (store square_env square4_path (PException ''PairError'' [PInt 1]) empty_world))
       square4_path
     = Some (''c__main__'' @ [CHR 0x0A] @ ''PairError'' @ [CHR 0x0A, CHR ''('', CHR ''K'', CHR 0x01]
               @ ''tR.'') \<and>
   fst (lookup square_env square4_path
          (snd (store square_env square4_path (PException ''PairError'' [PInt 1]) empty_world)))
     = Raised TypeError"
  by code_simp

text \<open>
  Claim C6, amended. For every path and every value the serializer encodes, \<^verbatim>\<open>store\<close>
  succeeds, puts exactly the serializer's bytes at the path and changes no other file, and
  a \<^verbatim>\<open>lookup\<close> at that path afterwards returns a value exactly when the deserializer returns
  that value on those bytes: it returns the stored value if and only if the value survives
  the serializer's round trip.
\<close>

theorem store_then_lookup_returns_loaded_record:
  assumes "pickle_dump env v = (written, None)"
  shows "fst (store env path v w) = None \<and>
         files (snd (store env path v w)) = (files w)(path \<mapsto> written) \<and>
         (\<forall>r. fst (lookup env path (snd (store env path v w))) = Hit r
                \<longleftrightarrow> pickle_load env written = Inr r)"
proof -
  let ?w1 = "w\<lparr>files := (files w)(path \<mapsto> written), trace := trace w @ [OpenWrite path]\<rparr>"
  have s: "store env path v w = (None, ?w1)" using assms by (rule store_eq)
  have f: "files ?w1 path = Some written" by simp
  have "fst (lookup env path ?w1) = Hit r \<longleftrightarrow> pickle_load env written = Inr r" for r
  proof (cases "pickle_load env written")
    case (Inr x)
    from lookup_hit [OF f Inr] Inr show ?thesis by simp
  next
    case (Inl e)
    show ?thesis
    proof (cases "caught e")
      case True
      from lookup_caught [OF f Inl True] Inl show ?thesis by simp
    next
      case False
      from lookup_raised [OF f Inl False] Inl show ?thesis by simp
    qed
  qed
  with s show ?thesis by simp
qed

theorem store_then_lookup_returns_loaded_record_witness:
  "pickle_dump square_env (PInt 16) = ([CHR ''K'', CHR 0x10, CHR ''.''], None) \<and>
   pickle_load square_env [CHR ''K'', CHR 0x10, CHR ''.''] = Inr (PInt 16) \<and>
   fst (store square_env square4_path (PInt 16) empty_world) = None \<and>
   fst (lookup square_env square4_path (snd (store square_env square4_path (PInt 16) empty_world)))
     = Hit (PInt 16)"
proof -
  have h1: "pickle_dump square_env (PInt 16) = ([CHR ''K'', CHR 0x10, CHR ''.''], None)"
    by code_simp
  have h2: "pickle_load square_env [CHR ''K'', CHR 0x10, CHR ''.''] = Inr (PInt 16)"
    by code_simp
  from store_then_lookup_returns_loaded_record [OF h1, of square4_path empty_world] h1 h2
  show ?thesis by simp
qed

text \<open>
  Claim C3 says that every record that fails to load is treated as a miss. Lines 68 and 69
  do this for a zero-byte record, on which loading raises \<^verbatim>\<open>EOFError\<close>: \<^verbatim>\<open>square(4)\<close> logs the
  warning, recomputes and overwrites the record. A record with damaged bytes can make
  loading raise another exception, here \<^verbatim>\<open>ValueError\<close>, which line 68 does not name: then
  \<^verbatim>\<open>square(4)\<close> raises to its caller, logs nothing and does not recompute, and the damaged
  record stays in place.
\<close>

theorem corrupted_record_raises_to_caller:
  "pickle_load square_env [] = Inl EOFError \<and>
   fst (wrapper square_env [PInt 4] [] (recorded_world square4_path [])) = Inr (PInt 16) \<and>
   trace (snd (wrapper square_env [PInt 4] [] (recorded_world square4_path [])))
     = [Exists square4_path, OpenRead square4_path, Warning (warning_message square4_path),
        Call [PInt 4] [], OpenWrite square4_path] \<and>
   files (recorded_world square4_path corrupted_record) square4_path = Some corrupted_record \<and>
   pickle_load square_env corrupted_record = Inl ValueError \<and>
   fst (wrapper square_env [PInt 4] [] (recorded_world square4_path corrupted_record))
     = Inl ValueError \<and>
   trace (snd (wrapper square_env [PInt 4] [] (recorded_world square4_path corrupted_record)))
     = [Exists square4_path, OpenRead square4_path] \<and>
   files (snd (wrapper square_env [PInt 4] [] (recorded_world square4_path corrupted_record)))
       square4_path = Some corrupted_record"
  by code_simp




end
